theory Spec2Isabelle
  imports Main "HOL-Library.AList"
begin

section \<open>Python values, dictionaries and the object store\<close>

text \<open>
  The claim sets handled by \<^verbatim>\<open>backend/app/routes/auth.py\<close> are Python dictionaries
  from strings to strings, integers, \<^verbatim>\<open>datetime\<close> objects or \<^verbatim>\<open>None\<close>. Instants are
  microseconds of unix time, the resolution of a \<^verbatim>\<open>datetime\<close>; a \<^verbatim>\<open>datetime\<close> is the
  instant it denotes and \<^verbatim>\<open>timedelta(minutes=m)\<close> is \<open>60 * 1000000 * m\<close>. The \<^verbatim>\<open>exp\<close>
  claim of a token is a number of whole seconds.
\<close>

datatype pyval = PNone | PStr string | PInt int | PDatetime int

type_synonym dict = "(string \<times> pyval) list"

text \<open>
  \<^verbatim>\<open>create_token\<close> copies and then updates a dictionary, so dictionaries live in an
  object store and are passed by reference: a reference is an index into the store, and
  a reference held by the program is always below the length of the store.
\<close>

type_synonym store = "dict list"

definition dict_copy :: "store \<Rightarrow> nat \<Rightarrow> nat \<times> store" where
  \<comment> \<open>\<^verbatim>\<open>d.copy()\<close>: a new object with the entries of \<^verbatim>\<open>d\<close>.\<close>
  "dict_copy h d = (length h, h @ [h ! d])"

definition dict_update :: "store \<Rightarrow> nat \<Rightarrow> string \<Rightarrow> pyval \<Rightarrow> store" where
  \<comment> \<open>\<^verbatim>\<open>d.update({k: v})\<close>: in place.\<close>
  "dict_update h d k v = h[d := AList.update k v (h ! d)]"

definition dict_get :: "dict \<Rightarrow> string \<Rightarrow> pyval" where
  \<comment> \<open>\<^verbatim>\<open>d.get(k)\<close>: \<^verbatim>\<open>None\<close> for a missing key.\<close>
  "dict_get d k = (case map_of d k of None \<Rightarrow> PNone | Some v \<Rightarrow> v)"

section \<open>Exceptions\<close>

text \<open>
  Every exception the handlers raise or catch. \<open>is_JWTError\<close> is the test of
  \<^verbatim>\<open>except JWTError\<close>: the class and its two subclasses. Every constructor is an
  \<^verbatim>\<open>Exception\<close>, so \<^verbatim>\<open>except Exception\<close> catches all of them.
\<close>

datatype exn =
    HTTPException nat string "(string \<times> string) list"
  | JWTError | ExpiredSignatureError | JWTClaimsError
  | JWSError | JWKError
  | TypeError | ValueError | RuntimeError
  | IntegrityError | OperationalError | InvalidRequestError

fun is_JWTError :: "exn \<Rightarrow> bool" where
  "is_JWTError JWTError = True"
| "is_JWTError ExpiredSignatureError = True"
| "is_JWTError JWTClaimsError = True"
| "is_JWTError _ = False"

section \<open>The token library\<close>

text \<open>
  \<^verbatim>\<open>jwt.encode\<close> and \<^verbatim>\<open>jwt.decode\<close> belong to the python-jose library, not to this
  program. They are modelled symbolically: a compact token is its header algorithm, its
  payload and its signature, and a signature made with key \<open>k\<close> under algorithm \<open>a\<close>
  over payload \<open>c\<close> is the term \<open>HMAC k a c\<close>, equal to no other signature. Only the
  symmetric algorithms are modelled, as the program has a single secret for signing and
  verifying. Of the registered-claim checks of \<^verbatim>\<open>jwt.decode\<close> the model has the two on
  the claims this program writes and reads, \<^verbatim>\<open>exp\<close> and \<^verbatim>\<open>sub\<close>.
\<close>

datatype signature = HMAC string string dict | NoSignature string

datatype token = JWS string dict signature | NotJWS string

definition hmac_algorithms :: "string list" where
  "hmac_algorithms = [''HS256'', ''HS384'', ''HS512'']"

definition timegm :: "int \<Rightarrow> int" where
  \<comment> \<open>\<^verbatim>\<open>timegm(d.utctimetuple())\<close>: the whole seconds of an instant; the time tuple has
      no microseconds.\<close>
  "timegm t = t div 1000000"

fun normalise_time_claim :: "string \<Rightarrow> dict \<Rightarrow> dict" where
  "normalise_time_claim k c =
     (case map_of c k of Some (PDatetime t) \<Rightarrow> AList.update k (PInt (timegm t)) c | _ \<Rightarrow> c)"

declare normalise_time_claim.simps [simp del]

definition normalise_time_claims :: "dict \<Rightarrow> dict" where
  \<comment> \<open>\<^verbatim>\<open>jwt.encode\<close> turns a \<^verbatim>\<open>datetime\<close> under \<^verbatim>\<open>exp\<close>, \<^verbatim>\<open>iat\<close> or \<^verbatim>\<open>nbf\<close> into its
      timestamp in whole seconds, in the dictionary it was given.\<close>
  "normalise_time_claims c =
     normalise_time_claim ''nbf'' (normalise_time_claim ''iat'' (normalise_time_claim ''exp'' c))"

fun json_serialisable :: "pyval \<Rightarrow> bool" where
  "json_serialisable (PDatetime _) = False"
| "json_serialisable _ = True"

definition jwt_encode :: "store \<Rightarrow> nat \<Rightarrow> string option \<Rightarrow> string option \<Rightarrow> (exn + token) \<times> store" where
  "jwt_encode h claims key algorithm =
     (let h' = h[claims := normalise_time_claims (h ! claims)];
          c = h' ! claims
      in (case algorithm of
            None \<Rightarrow> Inl JWSError
          | Some a \<Rightarrow>
              if a \<notin> set hmac_algorithms then Inl JWSError
              else if \<not> list_all (\<lambda>(k, v). json_serialisable v) c then Inl TypeError
              else (case key of
                      None \<Rightarrow> Inl JWSError
                    | Some k \<Rightarrow> Inr (JWS a c (HMAC k a c))),
          h'))"

definition validate_exp :: "dict \<Rightarrow> int \<Rightarrow> exn option" where
  \<comment> \<open>The library reads the clock in whole seconds and rejects a token when
      \<^verbatim>\<open>exp < now\<close>; \<open>clock\<close> is the instant of the reading.\<close>
  "validate_exp c clock =
     (let now = timegm clock
      in case map_of c ''exp'' of
        None \<Rightarrow> None
      | Some (PInt e) \<Rightarrow> if e < now then Some ExpiredSignatureError else None
      | Some PNone \<Rightarrow> Some TypeError
      | Some _ \<Rightarrow> Some JWTClaimsError)"

definition validate_sub :: "dict \<Rightarrow> exn option" where
  "validate_sub c =
     (case map_of c ''sub'' of
        None \<Rightarrow> None
      | Some (PStr _) \<Rightarrow> None
      | Some _ \<Rightarrow> Some JWTClaimsError)"

definition jwt_decode :: "token \<Rightarrow> string option \<Rightarrow> string option list \<Rightarrow> int \<Rightarrow> exn + dict" where
  \<comment> \<open>\<open>clock\<close> is the instant at which the library reads the clock.\<close>
  "jwt_decode t key algorithms clock =
     (case t of
        NotJWS _ \<Rightarrow> Inl JWTError
      | JWS a c sg \<Rightarrow>
          if a = [] then Inl JWTError
          else if Some a \<notin> set algorithms then Inl JWTError
          else (case key of
                  None \<Rightarrow> Inl JWKError
                | Some k \<Rightarrow>
                    if a \<notin> set hmac_algorithms then Inl JWKError
                    else if sg \<noteq> HMAC k a c then Inl JWTError
                    else (case validate_exp c clock of
                            Some e \<Rightarrow> Inl e
                          | None \<Rightarrow>
                              (case validate_sub c of
                                 Some e \<Rightarrow> Inl e
                               | None \<Rightarrow> Inr c))))"

text \<open>
  What a token carries: its payload, and the expiry encoded in it, in whole seconds.
\<close>

fun token_claims :: "token \<Rightarrow> dict" where
  "token_claims (JWS a c sg) = c"
| "token_claims (NotJWS x) = []"

definition token_expiry :: "token \<Rightarrow> int option" where
  "token_expiry t = (case map_of (token_claims t) ''exp'' of Some (PInt e) \<Rightarrow> Some e | _ \<Rightarrow> None)"

section \<open>Configuration read at import time\<close>

type_synonym environ = "(string \<times> string) list"

definition getenv :: "environ \<Rightarrow> string \<Rightarrow> string option" where
  "getenv env k = map_of env k"

record config =
  DATABASE_URL :: string
  SECRET_KEY :: "string option"
  ALGORITHM :: "string option"

definition ACCESS_TOKEN_EXPIRE_MINUTES :: int where
  "ACCESS_TOKEN_EXPIRE_MINUTES = 90"

definition load_database_url :: "environ \<Rightarrow> exn + string" where
  \<comment> \<open>\<^verbatim>\<open>core/config.py\<close>: \<^verbatim>\<open>not DATABASE_URL\<close> holds for \<^verbatim>\<open>None\<close> and for the empty string.\<close>
  "load_database_url env =
     (case getenv env ''DATABASE_URL'' of
        None \<Rightarrow> Inl ValueError
      | Some url \<Rightarrow> if url = [] then Inl ValueError else Inr url)"

definition startup :: "environ \<Rightarrow> exn + config" where
  \<comment> \<open>Importing the modules: \<^verbatim>\<open>core/config.py\<close> first, then the module-level
      assignments of \<^verbatim>\<open>routes/auth.py\<close>. \<open>env\<close> is the process environment after
      \<^verbatim>\<open>load_dotenv()\<close>.\<close>
  "startup env =
     (case load_database_url env of
        Inl e \<Rightarrow> Inl e
      | Inr url \<Rightarrow>
          Inr \<lparr>DATABASE_URL = url,
               SECRET_KEY = getenv env ''SECRET_KEY'',
               ALGORITHM = getenv env ''ALGORITHM''\<rparr>)"

section \<open>Token issuance\<close>

definition timedelta_minutes :: "int \<Rightarrow> int" where
  "timedelta_minutes m = 60 * 1000000 * m"

definition create_token :: "config \<Rightarrow> int \<Rightarrow> store \<Rightarrow> nat \<Rightarrow> (exn + token) \<times> store" where
  \<comment> \<open>\<open>now\<close> is what \<^verbatim>\<open>datetime.now(timezone.utc)\<close> returns during the call, in
      microseconds; \<open>data\<close> is the reference to the caller's dictionary.\<close>
  "create_token cfg now h data =
     (let (to_encode, h1) = dict_copy h data;
          expiry_date = now + timedelta_minutes ACCESS_TOKEN_EXPIRE_MINUTES;
          h2 = dict_update h1 to_encode ''exp'' (PDatetime expiry_date)
      in jwt_encode h2 to_encode (SECRET_KEY cfg) (ALGORITHM cfg))"

section \<open>The users table and the ORM session\<close>

text \<open>
  \<^verbatim>\<open>UserModel\<close> is declared in \<^verbatim>\<open>app/db/models.py\<close>; the handlers use the seven
  attributes below. The primary key is an integer assigned by the database, \<^verbatim>\<open>None\<close>
  on an object that has not been flushed.
\<close>

record user_model =
  user_id :: "int option"
  user_name :: string
  user_email :: string
  user_password :: string
  user_bio :: string
  user_location :: string
  user_job_title :: string

text \<open>
  A session sees the rows of the table, holds the objects added and not yet flushed, and
  counts how often it was closed. When the connection is down every statement raises
  \<^verbatim>\<open>OperationalError\<close>.
\<close>

record session =
  table :: "user_model list"
  pending :: "user_model list"
  connected :: bool
  closes :: nat

definition SessionLocal :: "user_model list \<Rightarrow> bool \<Rightarrow> session" where
  "SessionLocal rows up = \<lparr>table = rows, pending = [], connected = up, closes = 0\<rparr>"

definition query_first_by_email :: "session \<Rightarrow> string \<Rightarrow> exn + user_model option" where
  \<comment> \<open>\<^verbatim>\<open>db.query(UserModel).filter(UserModel.email == e).first()\<close>; the session is
      created with \<^verbatim>\<open>autoflush=False\<close>, so pending objects are not visible.\<close>
  "query_first_by_email db e =
     (if connected db then Inr (find (\<lambda>u. user_email u = e) (table db))
      else Inl OperationalError)"

fun str_nat :: "nat \<Rightarrow> string" where
  "str_nat n =
     (if n < 10 then [''0123456789'' ! n]
      else str_nat (n div 10) @ [''0123456789'' ! (n mod 10)])"

declare str_nat.simps [simp del]

definition str_int :: "int \<Rightarrow> string" where
  "str_int i = (if i < 0 then CHR ''-'' # str_nat (nat (- i)) else str_nat (nat i))"

definition str_id :: "int option \<Rightarrow> string" where
  \<comment> \<open>Python's \<^verbatim>\<open>str\<close> on the \<^verbatim>\<open>id\<close> attribute.\<close>
  "str_id i = (case i of None \<Rightarrow> ''None'' | Some n \<Rightarrow> str_int n)"

fun id_equals :: "int option \<Rightarrow> pyval \<Rightarrow> bool" where
  \<comment> \<open>\<^verbatim>\<open>UserModel.id == v\<close> as the database evaluates it: a string parameter matches
      the id whose decimal rendering it is.\<close>
  "id_equals (Some i) (PInt j) = (i = j)"
| "id_equals (Some i) (PStr s) = (str_int i = s)"
| "id_equals _ _ = False"

definition query_first_by_id :: "session \<Rightarrow> pyval \<Rightarrow> exn + user_model option" where
  "query_first_by_id db v =
     (if connected db then Inr (find (\<lambda>u. id_equals (user_id u) v) (table db))
      else Inl OperationalError)"

definition next_id :: "user_model list \<Rightarrow> int" where
  "next_id rows = 1 + fold max (map (\<lambda>u. case user_id u of None \<Rightarrow> 0 | Some i \<Rightarrow> i) rows) 0"

definition insert_row :: "user_model list \<Rightarrow> user_model \<Rightarrow> exn + user_model list" where
  \<comment> \<open>Modelled from the spec: \<^verbatim>\<open>app/db/models.py\<close> is missing; the spec's data model
      makes \<^verbatim>\<open>email\<close> unique, an invariant enforced by the store.\<close>
  "insert_row rows u =
     (if find (\<lambda>r. user_email r = user_email u) rows = None
      then Inr (rows @ [u\<lparr>user_id := Some (next_id rows)\<rparr>])
      else Inl IntegrityError)"

fun flush :: "user_model list \<Rightarrow> user_model list \<Rightarrow> exn + user_model list" where
  "flush rows [] = Inr rows"
| "flush rows (u # us) =
     (case insert_row rows u of Inl e \<Rightarrow> Inl e | Inr rows' \<Rightarrow> flush rows' us)"

definition db_add :: "session \<Rightarrow> user_model \<Rightarrow> session" where
  "db_add db u = db\<lparr>pending := pending db @ [u]\<rparr>"

definition db_commit :: "session \<Rightarrow> (exn + unit) \<times> session" where
  \<comment> \<open>A failed flush leaves the table as it was and the objects pending.\<close>
  "db_commit db =
     (if connected db
      then (case flush (table db) (pending db) of
              Inl e \<Rightarrow> (Inl e, db)
            | Inr rows \<Rightarrow> (Inr (), db\<lparr>table := rows, pending := []\<rparr>))
      else (Inl OperationalError, db))"

definition db_rollback :: "session \<Rightarrow> session" where
  "db_rollback db = db\<lparr>pending := []\<rparr>"

definition db_refresh :: "session \<Rightarrow> user_model \<Rightarrow> exn + user_model" where
  \<comment> \<open>Reloads the object's row, found by its unique email.\<close>
  "db_refresh db u =
     (if connected db
      then (case find (\<lambda>r. user_email r = user_email u) (table db) of
              None \<Rightarrow> Inl InvalidRequestError
            | Some r \<Rightarrow> Inr r)
      else Inl OperationalError)"

definition db_close :: "session \<Rightarrow> session" where
  "db_close db = db\<lparr>pending := [], closes := closes db + 1\<rparr>"

section \<open>The request handlers\<close>

record user_details =
  details_id :: "int option"
  details_name :: string
  details_email :: string

definition details_of :: "user_model \<Rightarrow> user_details" where
  "details_of u = \<lparr>details_id = user_id u, details_name = user_name u, details_email = user_email u\<rparr>"

record login_request =
  login_email :: string
  login_password :: string

record login_response =
  login_status :: string
  login_message :: string
  access_token :: token
  token_type :: string
  login_user_details :: user_details

definition login ::
  "(string \<Rightarrow> string \<Rightarrow> bool) \<Rightarrow> config \<Rightarrow> int \<Rightarrow> login_request \<Rightarrow> session \<Rightarrow> exn + login_response" where
  \<comment> \<open>\<open>verify_password\<close> is \<^verbatim>\<open>app.core.hashing.verify_password\<close>, a parameter.\<close>
  "login verify_password cfg now request db =
     (case query_first_by_email db (login_email request) of
        Inl e \<Rightarrow> Inl e
      | Inr None \<Rightarrow> Inl (HTTPException 404 ''User not found'' [])
      | Inr (Some user) \<Rightarrow>
          if \<not> verify_password (login_password request) (user_password user)
          then Inl (HTTPException 401 ''Incorrect password'' [])
          else (case fst (create_token cfg now [[(''sub'', PStr (str_id (user_id user)))]] 0) of
                  Inl e \<Rightarrow> Inl e
                | Inr token \<Rightarrow>
                    Inr \<lparr>login_status = ''success'',
                         login_message = ''User logged in successfully'',
                         access_token = token,
                         token_type = ''bearer'',
                         login_user_details = details_of user\<rparr>))"

record signup_request =
  signup_name :: string
  signup_email :: string
  signup_password :: string
  signup_bio :: string
  signup_location :: string
  signup_job_title :: string

record signup_response =
  signup_status :: string
  signup_message :: string
  signup_user_details :: user_details

definition sign_up_insert ::
  "(string \<Rightarrow> string) \<Rightarrow> signup_request \<Rightarrow> session \<Rightarrow> (exn + signup_response) \<times> session" where
  \<comment> \<open>\<^verbatim>\<open>sign_up\<close> from the hashing of the password on (lines 64 to 90): what runs once
      the query for an existing user has found none.\<close>
  "sign_up_insert hash_password request db =
     (let hashed_password = hash_password (signup_password request);
          new_user = \<lparr>user_id = None,
                      user_name = signup_name request,
                      user_email = signup_email request,
                      user_password = hashed_password,
                      user_bio = signup_bio request,
                      user_location = signup_location request,
                      user_job_title = signup_job_title request\<rparr>;
          db1 = db_add db new_user
      in (case db_commit db1 of
            (Inl e, db2) \<Rightarrow>
              if e = IntegrityError
              then (Inl (HTTPException 400 ''Error while creating user'' []), db_rollback db2)
              else (Inl e, db2)
          | (Inr _, db2) \<Rightarrow>
              (case db_refresh db2 new_user of
                 Inl e \<Rightarrow>
                   if e = IntegrityError
                   then (Inl (HTTPException 400 ''Error while creating user'' []), db_rollback db2)
                   else (Inl e, db2)
               | Inr u \<Rightarrow>
                   (Inr \<lparr>signup_status = ''success'',
                         signup_message = ''User created successfully'',
                         signup_user_details = details_of u\<rparr>, db2))))"

definition sign_up ::
  "(string \<Rightarrow> string) \<Rightarrow> signup_request \<Rightarrow> session \<Rightarrow> (exn + signup_response) \<times> session" where
  \<comment> \<open>\<open>hash_password\<close> is \<^verbatim>\<open>app.core.hashing.hash_password\<close>, a parameter.\<close>
  "sign_up hash_password request db =
     (case query_first_by_email db (signup_email request) of
        Inl e \<Rightarrow> (Inl e, db)
      | Inr (Some existing_user) \<Rightarrow>
          (Inl (HTTPException 400 ''User with this email already registered.'' []), db)
      | Inr None \<Rightarrow> sign_up_insert hash_password request db)"

subsection \<open>Resolving a bearer token\<close>

datatype log_record =
    Warning_no_sub dict
  | Error_token_decoding_failed exn
  | Exception_token_validation exn
  | Warning_user_not_found pyval
  | Exception_database_query pyval exn

definition credentials_exception :: exn where
  "credentials_exception =
     HTTPException 401 ''Could not validate credentials'' [(''WWW-Authenticate'', ''Bearer'')]"

definition token_subject :: "config \<Rightarrow> int \<Rightarrow> token \<Rightarrow> log_record list \<times> (exn + pyval)" where
  \<comment> \<open>The first \<^verbatim>\<open>try\<close> of \<^verbatim>\<open>get_current_user\<close> (lines 100 to 113). The
      \<^verbatim>\<open>credentials_exception\<close> raised for a missing \<^verbatim>\<open>sub\<close> is no \<^verbatim>\<open>JWTError\<close>; the
      \<^verbatim>\<open>except Exception\<close> clause of the same \<^verbatim>\<open>try\<close> catches it, logs it and raises it
      again. \<open>now\<close> is the instant at which \<^verbatim>\<open>jwt.decode\<close> reads the clock.\<close>
  "token_subject cfg now token =
     (case jwt_decode token (SECRET_KEY cfg) [ALGORITHM cfg] now of
        Inl e \<Rightarrow>
          if is_JWTError e
          then ([Error_token_decoding_failed e], Inl credentials_exception)
          else ([Exception_token_validation e], Inl credentials_exception)
      | Inr payload \<Rightarrow>
          (let user_id = dict_get payload ''sub''
           in if user_id = PNone
              then ([Warning_no_sub payload, Exception_token_validation credentials_exception],
                    Inl credentials_exception)
              else ([], Inr user_id)))"

definition subject_user :: "session \<Rightarrow> pyval \<Rightarrow> log_record list \<times> (exn + user_model)" where
  \<comment> \<open>The second \<^verbatim>\<open>try\<close> (lines 115 to 122); its \<^verbatim>\<open>except Exception\<close> also catches
      the \<^verbatim>\<open>credentials_exception\<close> raised for a missing user.\<close>
  "subject_user db uid =
     (case query_first_by_id db uid of
        Inl e \<Rightarrow> ([Exception_database_query uid e], Inl credentials_exception)
      | Inr None \<Rightarrow>
          ([Warning_user_not_found uid, Exception_database_query uid credentials_exception],
           Inl credentials_exception)
      | Inr (Some user) \<Rightarrow> ([], Inr user))"

definition get_current_user ::
  "config \<Rightarrow> int \<Rightarrow> token \<Rightarrow> session \<Rightarrow> log_record list \<times> (exn + user_model)" where
  "get_current_user cfg now token db =
     (case token_subject cfg now token of
        (log1, Inl e) \<Rightarrow> (log1, Inl e)
      | (log1, Inr uid) \<Rightarrow>
          (case subject_user db uid of (log2, r) \<Rightarrow> (log1 @ log2, r)))"

section \<open>Scoped acquisition of the session\<close>

text \<open>
  \<^verbatim>\<open>get_db\<close> and \<^verbatim>\<open>get_db_session\<close> in \<^verbatim>\<open>app/db/session.py\<close> are generators with the
  same body: create the session, \<^verbatim>\<open>yield\<close> it inside \<^verbatim>\<open>try\<close>, close it in
  \<^verbatim>\<open>finally\<close>. A generator is a position and its local variable \<^verbatim>\<open>db\<close>; its caller resumes
  it with \<^verbatim>\<open>next\<close>, \<^verbatim>\<open>throw\<close> or \<^verbatim>\<open>close\<close>. The session is one mutable object, so
  the caller hands the generator the session as the handler left it.
\<close>

datatype position = Created | AtYield | Done

datatype resume = Next | Throw exn | Close

datatype signal = Yield | StopIteration | Raise exn | Return

type_synonym generator = "position \<times> session option"

fun get_db :: "user_model list \<Rightarrow> bool \<Rightarrow> generator \<Rightarrow> resume \<Rightarrow> generator \<times> signal" where
  "get_db rows up (Created, _) Next = ((AtYield, Some (SessionLocal rows up)), Yield)"
| "get_db rows up (Created, d) (Throw e) = ((Done, d), Raise e)"
| "get_db rows up (Created, d) Close = ((Done, d), Return)"
| "get_db rows up (AtYield, d) Next = ((Done, map_option db_close d), StopIteration)"
| "get_db rows up (AtYield, d) (Throw e) = ((Done, map_option db_close d), Raise e)"
| "get_db rows up (AtYield, d) Close = ((Done, map_option db_close d), Return)"
| "get_db rows up (Done, d) Next = ((Done, d), StopIteration)"
| "get_db rows up (Done, d) (Throw e) = ((Done, d), Raise e)"
| "get_db rows up (Done, d) Close = ((Done, d), Return)"

definition get_db_session :: "user_model list \<Rightarrow> bool \<Rightarrow> generator \<Rightarrow> resume \<Rightarrow> generator \<times> signal" where
  "get_db_session = get_db"

definition scoped ::
  "(generator \<Rightarrow> resume \<Rightarrow> generator \<times> signal) \<Rightarrow> (session \<Rightarrow> (exn + 'a) \<times> session)
     \<Rightarrow> (exn + 'a) \<times> generator" where
  \<comment> \<open>How the framework's dependency injection and \<^verbatim>\<open>with\<close> on a
      \<^verbatim>\<open>@contextmanager\<close> drive the generator: \<^verbatim>\<open>next\<close> to enter, then the body, then
      \<^verbatim>\<open>next\<close> if the body returned and \<^verbatim>\<open>throw\<close> if it raised.\<close>
  "scoped gen body =
     (case gen (Created, None) Next of
        ((p, Some db), Yield) \<Rightarrow>
          (case body db of
             (r, db') \<Rightarrow>
               (r, fst (gen (p, Some db') (case r of Inl e \<Rightarrow> Throw e | Inr _ \<Rightarrow> Next))))
      | (g, _) \<Rightarrow> (Inl RuntimeError, g))"

section \<open>Example inputs\<close>

text \<open>
  A configuration with both settings present, and the token that \<^verbatim>\<open>create_token\<close>
  returns under it for the subject 42 at any instant of second 1000: its expiry is
  second 1000 + 5400.
\<close>

definition example_config :: config where
  "example_config =
     \<lparr>DATABASE_URL = ''sqlite:///./app.db'', SECRET_KEY = Some ''s3cret'', ALGORITHM = Some ''HS256''\<rparr>"

definition example_token :: token where
  "example_token =
     JWS ''HS256'' [(''sub'', PStr ''42''), (''exp'', PInt 6400)]
       (HMAC ''s3cret'' ''HS256'' [(''sub'', PStr ''42''), (''exp'', PInt 6400)])"

text \<open>A stored user with id 42, and a session on the table that holds this user alone.\<close>

definition example_user :: user_model where
  "example_user =
     \<lparr>user_id = Some 42, user_name = ''Ada'', user_email = ''ada@example.org'',
      user_password = ''digest-of-pw'', user_bio = ''-'', user_location = ''-'',
      user_job_title = ''-''\<rparr>"

definition example_session :: session where
  "example_session = SessionLocal [example_user] True"

definition example_signup :: signup_request where
  "example_signup =
     \<lparr>signup_name = ''Ada'', signup_email = ''ada@example.org'', signup_password = ''pw'',
      signup_bio = ''-'', signup_location = ''-'', signup_job_title = ''-''\<rparr>"

section \<open>Properties of token issuance\<close>




text \<open>
  The store after the copy and the update, as \<^verbatim>\<open>jwt.encode\<close> receives it: the caller's
  objects, then the copy with \<^verbatim>\<open>exp\<close> set.
\<close>

lemma create_token_unfold:
  "create_token cfg now h data =
     jwt_encode (h @ [AList.update ''exp'' (PDatetime (now + 5400000000)) (h ! data)])
       (length h) (SECRET_KEY cfg) (ALGORITHM cfg)"
  by (simp add: create_token_def dict_copy_def dict_update_def timedelta_minutes_def
      ACCESS_TOKEN_EXPIRE_MINUTES_def)

lemma jwt_encode_Inr:
  assumes "fst (jwt_encode h r key alg) = Inr t" and "r < length h"
  shows "\<exists>a k. alg = Some a \<and> key = Some k \<and> a \<in> set hmac_algorithms \<and>
           t = JWS a (normalise_time_claims (h ! r)) (HMAC k a (normalise_time_claims (h ! r)))"
proof (cases alg)
  case None
  with assms show ?thesis by (simp add: jwt_encode_def Let_def)
next
  case (Some a)
  show ?thesis
  proof (cases key)
    case None
    with Some assms show ?thesis by (simp add: jwt_encode_def Let_def split: if_splits)
  next
    case (Some k)
    with \<open>alg = Some a\<close> assms show ?thesis
      by (simp add: jwt_encode_def Let_def split: if_splits)
  qed
qed

lemma create_token_Inr:
  assumes "fst (create_token cfg now h data) = Inr t"
  shows "\<exists>a k. ALGORITHM cfg = Some a \<and> SECRET_KEY cfg = Some k \<and> a \<in> set hmac_algorithms \<and>
           t = JWS a (normalise_time_claims (AList.update ''exp''
                        (PDatetime (now + 5400000000)) (h ! data)))
                 (HMAC k a (normalise_time_claims (AList.update ''exp''
                        (PDatetime (now + 5400000000)) (h ! data))))"
proof -
  let ?d = "AList.update ''exp'' (PDatetime (now + 5400000000)) (h ! data)"
  have "fst (jwt_encode (h @ [?d]) (length h) (SECRET_KEY cfg) (ALGORITHM cfg)) = Inr t"
    using assms by (simp only: create_token_unfold)
  moreover have "length h < length (h @ [?d])" by simp
  ultimately show ?thesis
    using jwt_encode_Inr [of "h @ [?d]" "length h" "SECRET_KEY cfg" "ALGORITHM cfg" t]
    by (simp only: nth_append_length)
qed

lemma jwt_encode_store:
  "snd (jwt_encode h r key alg) = h[r := normalise_time_claims (h ! r)]"
  by (simp add: jwt_encode_def Let_def)








lemma create_token_example:
  "create_token example_config 1000000000 [[(''sub'', PStr ''42'')]] 0 =
     (Inr example_token, [[(''sub'', PStr ''42'')], [(''sub'', PStr ''42''), (''exp'', PInt 6400)]])"
  by (simp add: create_token_unfold jwt_encode_def Let_def normalise_time_claims_def
      normalise_time_claim.simps hmac_algorithms_def timegm_def
      example_config_def example_token_def)


lemma token_expiry_example: "token_expiry example_token = Some 6400"
  by (simp add: token_expiry_def example_token_def)




text \<open>
  Claim C10. \<^verbatim>\<open>create_token\<close> leaves the caller's dictionary as it was: the object
  behind the reference \<open>data\<close> is the same after the call, and so is every other object
  the store held before it. The expiry is written to the copy, a new object.
\<close>

theorem create_token_keeps_input:
  assumes "data < length h"
  shows "snd (create_token cfg now h data) ! data = h ! data
         \<and> take (length h) (snd (create_token cfg now h data)) = h"
  using assms
  by (simp add: create_token_unfold jwt_encode_store nth_append)

theorem create_token_keeps_input_witness:
  "(0::nat) < length [[(''sub'', PStr ''42'')]]
   \<and> snd (create_token example_config 1000000000 [[(''sub'', PStr ''42'')]] 0) ! 0
       = [(''sub'', PStr ''42'')]
   \<and> snd (create_token example_config 1000000000 [[(''sub'', PStr ''42'')]] 0) ! 1
       = [(''sub'', PStr ''42''), (''exp'', PInt 6400)]"
proof -
  have h: "(0::nat) < length [[(''sub'', PStr ''42'')]]" by simp
  show ?thesis
    using h create_token_keeps_input [OF h, of example_config 1000000000]
    by (simp add: create_token_example)
qed

section \<open>Properties of token verification\<close>

lemma hmac_algorithm_nonempty: "a \<in> set hmac_algorithms \<Longrightarrow> a \<noteq> []"
  by (auto simp: hmac_algorithms_def)

lemma jwt_decode_own_token:
  assumes "a \<in> set hmac_algorithms"
  shows "jwt_decode (JWS a c (HMAC k a c)) (Some k) [Some a] clock =
           (case validate_exp c clock of
              Some e \<Rightarrow> Inl e
            | None \<Rightarrow> (case validate_sub c of Some e \<Rightarrow> Inl e | None \<Rightarrow> Inr c))"
  using assms hmac_algorithm_nonempty [OF assms] by (simp add: jwt_decode_def)

lemma normalise_subject_claims:
  "normalise_time_claims (AList.update ''exp'' (PDatetime t) [(''sub'', PStr s)])
     = [(''sub'', PStr s), (''exp'', PInt (t div 1000000))]"
  by (simp add: normalise_time_claims_def normalise_time_claim.simps timegm_def)

text \<open>The token issued for a subject, as \<^verbatim>\<open>login\<close> asks for it.\<close>

lemma create_token_subject:
  assumes "h ! data = [(''sub'', PStr s)]"
    and "fst (create_token cfg t0 h data) = Inr tok"
  shows "\<exists>a k. ALGORITHM cfg = Some a \<and> SECRET_KEY cfg = Some k \<and> a \<in> set hmac_algorithms \<and>
           tok = JWS a [(''sub'', PStr s), (''exp'', PInt ((t0 + 5400000000) div 1000000))]
                   (HMAC k a [(''sub'', PStr s), (''exp'', PInt ((t0 + 5400000000) div 1000000))])"
  using create_token_Inr [OF assms(2)] by (simp only: assms(1) normalise_subject_claims)

lemma reading_before: "t < 1000000 * e \<Longrightarrow> \<not> e < t div 1000000" for t e :: int
  by linarith

text \<open>
  Claim C1. A token issued for the subject \<open>s\<close>, that is from the claim set
  \<^verbatim>\<open>{"sub": s}\<close>, and verified under the same configuration at an instant before the
  expiry it encodes, verifies: the first \<^verbatim>\<open>try\<close> of \<^verbatim>\<open>get_current_user\<close> logs nothing
  and yields \<open>s\<close> as it was given, and \<^verbatim>\<open>get_current_user\<close> goes on to look \<open>s\<close> up.
  The expiry \<open>e\<close> is in seconds and the instant \<open>t1\<close> in microseconds. This holds for the
  empty \<open>s\<close> too.
\<close>

theorem issue_verify_roundtrip:
  assumes "data < length h" and "h ! data = [(''sub'', PStr s)]"
    and "fst (create_token cfg t0 h data) = Inr tok"
    and "token_expiry tok = Some e" and "t1 < 1000000 * e"
  shows "token_subject cfg t1 tok = ([], Inr (PStr s))
         \<and> get_current_user cfg t1 tok db = subject_user db (PStr s)"
proof -
  let ?c = "[(''sub'', PStr s), (''exp'', PInt ((t0 + 5400000000) div 1000000))]"
  from create_token_subject [OF assms(2,3)] obtain a k where
    cfg: "ALGORITHM cfg = Some a" "SECRET_KEY cfg = Some k" and a: "a \<in> set hmac_algorithms"
    and tok: "tok = JWS a ?c (HMAC k a ?c)"
    by blast
  from tok assms(4) have e: "e = (t0 + 5400000000) div 1000000"
    by (simp add: token_expiry_def)
  from reading_before [OF assms(5)] e
  have "\<not> (t0 + 5400000000) div 1000000 < t1 div 1000000" by simp
  then have "jwt_decode tok (SECRET_KEY cfg) [ALGORITHM cfg] t1 = Inr ?c"
    by (simp add: tok cfg jwt_decode_own_token [OF a] validate_exp_def validate_sub_def timegm_def)
  then have 1: "token_subject cfg t1 tok = ([], Inr (PStr s))"
    by (simp add: token_subject_def dict_get_def)
  then have "get_current_user cfg t1 tok db = subject_user db (PStr s)"
    by (simp add: get_current_user_def split: prod.splits)
  with 1 show ?thesis by simp
qed

theorem issue_verify_roundtrip_witness:
  "(0::nat) < length [[(''sub'', PStr ''42'')]]
   \<and> fst (create_token example_config 1000000000 [[(''sub'', PStr ''42'')]] 0) = Inr example_token
   \<and> token_expiry example_token = Some 6400 \<and> (6399999999::int) < 1000000 * 6400
   \<and> token_subject example_config 6399999999 example_token = ([], Inr (PStr ''42''))"
proof -
  have 1: "(0::nat) < length [[(''sub'', PStr ''42'')]]" by simp
  have 2: "[[(''sub'', PStr ''42'')]] ! 0 = [(''sub'', PStr ''42'')]" by simp
  have 3: "fst (create_token example_config 1000000000 [[(''sub'', PStr ''42'')]] 0) = Inr example_token"
    by (simp add: create_token_example)
  have 5: "(6399999999::int) < 1000000 * 6400" by simp
  show ?thesis
    using 1 3 5 token_expiry_example
      issue_verify_roundtrip [OF 1 2 3 token_expiry_example 5]
    by simp
qed

subsection \<open>Expired tokens\<close>


lemma str_int_42: "str_int 42 = ''42''"
  by (simp add: str_int_def str_nat.simps)

lemma subject_user_example: "subject_user example_session (PStr ''42'') = ([], Inr example_user)"
  by (simp add: subject_user_def query_first_by_id_def SessionLocal_def example_session_def
      example_user_def str_int_42)


text \<open>
  From one second after the instant of issuance plus 90 minutes on, the whole second of
  the clock is past the whole second of the expiry.
\<close>

lemma one_second_later:
  "t0 + 90 * 60 * 1000000 + 1000000 \<le> t1 \<Longrightarrow>
     (t0 + 90 * 60 * 1000000) div 1000000 < t1 div 1000000" for t0 t1 :: int
  by linarith



subsection \<open>Tokens without a subject\<close>

text \<open>
  Claim C5. When \<^verbatim>\<open>jwt.decode\<close> accepts a token and the payload has no \<^verbatim>\<open>sub\<close> entry,
  verification fails: the handler logs the missing subject and raises the unauthorized
  \<^verbatim>\<open>credentials_exception\<close>; no user and no anonymous identity is returned, whatever the
  store holds. The \<^verbatim>\<open>except Exception\<close> clause of the same \<^verbatim>\<open>try\<close> catches and logs
  the exception once more before it is raised again.
\<close>

theorem missing_subject_rejected:
  assumes "jwt_decode token (SECRET_KEY cfg) [ALGORITHM cfg] now = Inr payload"
    and "map_of payload ''sub'' = None"
  shows "token_subject cfg now token
           = ([Warning_no_sub payload, Exception_token_validation credentials_exception],
              Inl credentials_exception)
         \<and> get_current_user cfg now token db
           = ([Warning_no_sub payload, Exception_token_validation credentials_exception],
              Inl credentials_exception)"
  using assms by (simp add: get_current_user_def token_subject_def dict_get_def)

lemma jwt_decode_no_sub_example:
  "jwt_decode (JWS ''HS256'' [(''exp'', PInt 6400)] (HMAC ''s3cret'' ''HS256'' [(''exp'', PInt 6400)]))
     (SECRET_KEY example_config) [ALGORITHM example_config] 2000000000 = Inr [(''exp'', PInt 6400)]"
  by (simp add: jwt_decode_def example_config_def hmac_algorithms_def validate_exp_def
      validate_sub_def timegm_def)

theorem missing_subject_rejected_witness:
  "jwt_decode (JWS ''HS256'' [(''exp'', PInt 6400)] (HMAC ''s3cret'' ''HS256'' [(''exp'', PInt 6400)]))
     (SECRET_KEY example_config) [ALGORITHM example_config] 2000000000 = Inr [(''exp'', PInt 6400)]
   \<and> map_of [(''exp'', PInt 6400)] ''sub'' = None
   \<and> snd (get_current_user example_config 2000000000
        (JWS ''HS256'' [(''exp'', PInt 6400)] (HMAC ''s3cret'' ''HS256'' [(''exp'', PInt 6400)]))
        example_session)
       = Inl (HTTPException 401 ''Could not validate credentials'' [(''WWW-Authenticate'', ''Bearer'')])"
proof -
  have 2: "map_of [(''exp'', PInt 6400)] ''sub'' = None" by simp
  show ?thesis
    using jwt_decode_no_sub_example 2
      missing_subject_rejected [OF jwt_decode_no_sub_example 2, of example_session]
    by (simp add: credentials_exception_def)
qed

subsection \<open>Every failure looks the same\<close>

lemma token_subject_Inl:
  "snd (token_subject cfg now token) = Inl e \<Longrightarrow> e = credentials_exception"
  by (cases "jwt_decode token (SECRET_KEY cfg) [ALGORITHM cfg] now")
     (simp_all add: token_subject_def Let_def split: if_splits)

lemma subject_user_Inl:
  "snd (subject_user db uid) = Inl e \<Longrightarrow> e = credentials_exception"
  by (cases "query_first_by_id db uid")
     (simp_all add: subject_user_def split: option.splits)

lemma get_current_user_Inl:
  assumes "snd (get_current_user cfg now token db) = Inl e"
  shows "e = credentials_exception"
proof (cases "token_subject cfg now token")
  case (Pair log1 r)
  show ?thesis
  proof (cases r)
    case (Inl e')
    with Pair assms have "e = e'" by (simp add: get_current_user_def)
    moreover from Pair Inl have "e' = credentials_exception"
      using token_subject_Inl [of cfg now token e'] by simp
    ultimately show ?thesis by simp
  next
    case (Inr uid)
    with Pair assms have "snd (subject_user db uid) = Inl e"
      by (simp add: get_current_user_def split: prod.splits)
    then show ?thesis by (rule subject_user_Inl)
  qed
qed

text \<open>
  Three runs of \<^verbatim>\<open>get_current_user\<close> under the example configuration at instant
  2000 s: a string that is no token, the example token when the table is empty, and the
  example token when the table holds user 42. The first two fail for different reasons
  and write different logs; the third returns the user.
\<close>

lemma get_current_user_malformed_example:
  "get_current_user example_config 2000000000 (NotJWS ''garbage'') example_session
     = ([Error_token_decoding_failed JWTError], Inl credentials_exception)"
  by (simp add: get_current_user_def token_subject_def jwt_decode_def)

lemma token_subject_example:
  "token_subject example_config 2000000000 example_token = ([], Inr (PStr ''42''))"
  by (simp add: token_subject_def jwt_decode_def example_config_def example_token_def
      hmac_algorithms_def validate_exp_def validate_sub_def dict_get_def timegm_def)

lemma get_current_user_not_found_example:
  "get_current_user example_config 2000000000 example_token (SessionLocal [] True)
     = ([Warning_user_not_found (PStr ''42''),
         Exception_database_query (PStr ''42'') credentials_exception],
        Inl credentials_exception)"
  by (simp add: get_current_user_def token_subject_example subject_user_def
      query_first_by_id_def SessionLocal_def)

lemma get_current_user_example:
  "get_current_user example_config 2000000000 example_token example_session
     = ([], Inr example_user)"
  by (simp add: get_current_user_def token_subject_example subject_user_example)

text \<open>
  Claim C6. Whenever \<^verbatim>\<open>get_current_user\<close> fails, for whatever reason (the token does
  not decode, has a bad signature or is expired; it has no subject; the subject is not
  in the table; the query itself fails), it raises the same exception: status 401, the
  detail \<^verbatim>\<open>Could not validate credentials\<close> and the same header. Two failing runs cannot
  be told apart by what the client receives.
\<close>

theorem failures_indistinguishable:
  assumes "snd (get_current_user cfg1 now1 token1 db1) = Inl e1"
    and "snd (get_current_user cfg2 now2 token2 db2) = Inl e2"
  shows "e1 = e2
         \<and> e1 = HTTPException 401 ''Could not validate credentials'' [(''WWW-Authenticate'', ''Bearer'')]"
  using get_current_user_Inl [OF assms(1)] get_current_user_Inl [OF assms(2)]
  by (simp add: credentials_exception_def)

theorem failures_indistinguishable_witness:
  "snd (get_current_user example_config 2000000000 (NotJWS ''garbage'') example_session)
     = Inl credentials_exception
   \<and> snd (get_current_user example_config 2000000000 example_token (SessionLocal [] True))
     = Inl credentials_exception
   \<and> fst (get_current_user example_config 2000000000 (NotJWS ''garbage'') example_session)
     \<noteq> fst (get_current_user example_config 2000000000 example_token (SessionLocal [] True))
   \<and> credentials_exception
     = HTTPException 401 ''Could not validate credentials'' [(''WWW-Authenticate'', ''Bearer'')]"
proof -
  have 1: "snd (get_current_user example_config 2000000000 (NotJWS ''garbage'') example_session)
             = Inl credentials_exception"
    by (simp add: get_current_user_malformed_example)
  have 2: "snd (get_current_user example_config 2000000000 example_token (SessionLocal [] True))
             = Inl credentials_exception"
    by (simp add: get_current_user_not_found_example)
  show ?thesis
    using 1 2 failures_indistinguishable [OF 1 2]
    by (simp add: get_current_user_malformed_example get_current_user_not_found_example)
qed

section \<open>Properties of the handlers\<close>

subsection \<open>Signing up with a known email\<close>

lemma insert_row_error: "insert_row rows u = Inl e \<Longrightarrow> e = IntegrityError"
  by (simp add: insert_row_def split: if_splits)

lemma find_append_left: "find P xs \<noteq> None \<Longrightarrow> find P (xs @ ys) \<noteq> None"
  by (induction xs) auto

lemma insert_row_keeps:
  assumes "insert_row rows u = Inr rows'" and "find P rows \<noteq> None"
  shows "find P rows' \<noteq> None"
proof -
  from assms(1) have "rows' = rows @ [u\<lparr>user_id := Some (next_id rows)\<rparr>]"
    by (simp add: insert_row_def split: if_splits)
  with find_append_left [OF assms(2)] show ?thesis by simp
qed

text \<open>
  A flush that includes an object whose email is already in the table fails, whatever
  else is pending.
\<close>

lemma flush_duplicate:
  "find (\<lambda>r. user_email r = user_email u) rows \<noteq> None \<Longrightarrow>
     flush rows (ps @ [u]) = Inl IntegrityError"
proof (induction ps arbitrary: rows)
  case Nil
  then show ?case by (simp add: insert_row_def)
next
  case (Cons p ps)
  show ?case
  proof (cases "insert_row rows p")
    case (Inl e)
    then show ?thesis using insert_row_error [OF Inl] by simp
  next
    case (Inr rows')
    from insert_row_keeps [OF Inr Cons.prems]
    have "flush rows' (ps @ [u]) = Inl IntegrityError" by (rule Cons.IH)
    with Inr show ?thesis by simp
  qed
qed

text \<open>
  Claim C7. When the table already holds a user with the email of the request,
  \<^verbatim>\<open>sign_up\<close> raises a 400 and leaves the session, and so the table, as they were: the
  query finds the user. When the query found none and the email is in the table by the
  time of the commit (another request committed it in between), the rest of the handler,
  \<open>sign_up_insert\<close>, meets \<^verbatim>\<open>IntegrityError\<close>, rolls back and raises a 400 again: the
  table is as it was and nothing is pending.
\<close>

theorem sign_up_duplicate_rejected:
  assumes "connected db"
    and "find (\<lambda>u. user_email u = signup_email request) (table db) \<noteq> None"
  shows "sign_up hash_password request db
           = (Inl (HTTPException 400 ''User with this email already registered.'' []), db)
         \<and> sign_up_insert hash_password request db
           = (Inl (HTTPException 400 ''Error while creating user'' []), db\<lparr>pending := []\<rparr>)"
proof -
  from assms have 1: "sign_up hash_password request db
           = (Inl (HTTPException 400 ''User with this email already registered.'' []), db)"
    by (auto simp: sign_up_def query_first_by_email_def)
  let ?u = "\<lparr>user_id = None, user_name = signup_name request, user_email = signup_email request,
             user_password = hash_password (signup_password request), user_bio = signup_bio request,
             user_location = signup_location request, user_job_title = signup_job_title request\<rparr>"
  have "find (\<lambda>r. user_email r = user_email ?u) (table db) \<noteq> None"
    using assms(2) by simp
  then have "flush (table db) (pending db @ [?u]) = Inl IntegrityError"
    by (rule flush_duplicate)
  then have "db_commit (db_add db ?u) = (Inl IntegrityError, db_add db ?u)"
    using assms(1) by (simp add: db_commit_def db_add_def)
  then have 2: "sign_up_insert hash_password request db
           = (Inl (HTTPException 400 ''Error while creating user'' []), db\<lparr>pending := []\<rparr>)"
    by (simp add: sign_up_insert_def Let_def db_rollback_def db_add_def)
  from 1 2 show ?thesis by simp
qed

lemma example_session_connected: "connected example_session"
  by (simp add: example_session_def SessionLocal_def)

lemma example_session_has_email:
  "find (\<lambda>u. user_email u = signup_email example_signup) (table example_session) \<noteq> None"
  by (simp add: example_session_def SessionLocal_def example_user_def example_signup_def)

theorem sign_up_duplicate_rejected_witness:
  "connected example_session
   \<and> find (\<lambda>u. user_email u = signup_email example_signup) (table example_session) \<noteq> None
   \<and> sign_up (\<lambda>p. ''digest-of-'' @ p) example_signup example_session
       = (Inl (HTTPException 400 ''User with this email already registered.'' []), example_session)
   \<and> fst (sign_up_insert (\<lambda>p. ''digest-of-'' @ p) example_signup example_session)
       = Inl (HTTPException 400 ''Error while creating user'' [])
   \<and> table (snd (sign_up_insert (\<lambda>p. ''digest-of-'' @ p) example_signup example_session))
       = [example_user]"
  using example_session_connected example_session_has_email
    sign_up_duplicate_rejected [OF example_session_connected example_session_has_email,
      of "\<lambda>p. ''digest-of-'' @ p"]
  by (simp add: example_session_def SessionLocal_def)

text \<open>A first signup on an empty table succeeds and stores the user with a new id.\<close>

lemma sign_up_example:
  "sign_up (\<lambda>p. ''digest-of-'' @ p) example_signup (SessionLocal [] True)
     = (Inr \<lparr>signup_status = ''success'', signup_message = ''User created successfully'',
             signup_user_details =
               \<lparr>details_id = Some 1, details_name = ''Ada'', details_email = ''ada@example.org''\<rparr>\<rparr>,
        SessionLocal [example_user\<lparr>user_id := Some 1\<rparr>] True)"
  by (simp add: sign_up_def sign_up_insert_def Let_def query_first_by_email_def SessionLocal_def
      db_add_def db_commit_def db_refresh_def insert_row_def next_id_def details_of_def
      example_signup_def example_user_def)

subsection \<open>Logging in\<close>

text \<open>
  Claim C8. With the database reachable, \<^verbatim>\<open>login\<close> raises a 404 when no user has the
  email of the request, raises a 401 when the user is found and the password does not
  verify, and, when the password verifies and \<^verbatim>\<open>create_token\<close> returns a token for the
  user's id, returns that token as \<^verbatim>\<open>access_token\<close>, with \<^verbatim>\<open>token_type\<close> \<^verbatim>\<open>bearer\<close>
  and the id, name and email of the user that was found.
\<close>

theorem login_outcomes:
  assumes "connected db"
  shows "(find (\<lambda>u. user_email u = login_email request) (table db) = None \<longrightarrow>
            login verify_password cfg now request db = Inl (HTTPException 404 ''User not found'' []))
       \<and> (find (\<lambda>u. user_email u = login_email request) (table db) = Some user
            \<and> \<not> verify_password (login_password request) (user_password user) \<longrightarrow>
            login verify_password cfg now request db = Inl (HTTPException 401 ''Incorrect password'' []))
       \<and> (find (\<lambda>u. user_email u = login_email request) (table db) = Some user
            \<and> verify_password (login_password request) (user_password user)
            \<and> fst (create_token cfg now [[(''sub'', PStr (str_id (user_id user)))]] 0) = Inr tok \<longrightarrow>
            login verify_password cfg now request db =
              Inr \<lparr>login_status = ''success'', login_message = ''User logged in successfully'',
                   access_token = tok, token_type = ''bearer'',
                   login_user_details =
                     \<lparr>details_id = user_id user, details_name = user_name user,
                      details_email = user_email user\<rparr>\<rparr>)"
  using assms by (simp add: login_def query_first_by_email_def details_of_def)

lemma create_token_example_user:
  "fst (create_token example_config 1000000000 [[(''sub'', PStr (str_id (user_id example_user)))]] 0)
     = Inr example_token"
  by (simp add: example_user_def str_id_def str_int_42 create_token_example)

theorem login_outcomes_witness:
  "connected example_session
   \<and> login (\<lambda>p d. d = ''digest-of-'' @ p) example_config 1000000000
       \<lparr>login_email = ''bob@example.org'', login_password = ''pw''\<rparr> example_session
       = Inl (HTTPException 404 ''User not found'' [])
   \<and> login (\<lambda>p d. d = ''digest-of-'' @ p) example_config 1000000000
       \<lparr>login_email = ''ada@example.org'', login_password = ''guess''\<rparr> example_session
       = Inl (HTTPException 401 ''Incorrect password'' [])
   \<and> login (\<lambda>p d. d = ''digest-of-'' @ p) example_config 1000000000
       \<lparr>login_email = ''ada@example.org'', login_password = ''pw''\<rparr> example_session
       = Inr \<lparr>login_status = ''success'', login_message = ''User logged in successfully'',
              access_token = example_token, token_type = ''bearer'',
              login_user_details =
                \<lparr>details_id = Some 42, details_name = ''Ada'', details_email = ''ada@example.org''\<rparr>\<rparr>"
proof -
  have f1: "find (\<lambda>u. user_email u = login_email \<lparr>login_email = ''bob@example.org'', login_password = ''pw''\<rparr>)
              (table example_session) = None"
    by (simp add: example_session_def SessionLocal_def example_user_def)
  have f2: "find (\<lambda>u. user_email u = login_email \<lparr>login_email = ''ada@example.org'', login_password = ''guess''\<rparr>)
              (table example_session) = Some example_user"
    by (simp add: example_session_def SessionLocal_def example_user_def)
  have f3: "find (\<lambda>u. user_email u = login_email \<lparr>login_email = ''ada@example.org'', login_password = ''pw''\<rparr>)
              (table example_session) = Some example_user"
    by (simp add: example_session_def SessionLocal_def example_user_def)
  have p2: "\<not> (\<lambda>p d. d = ''digest-of-'' @ p)
              (login_password \<lparr>login_email = ''ada@example.org'', login_password = ''guess''\<rparr>)
              (user_password example_user)"
    by (simp add: example_user_def)
  have p3: "(\<lambda>p d. d = ''digest-of-'' @ p)
              (login_password \<lparr>login_email = ''ada@example.org'', login_password = ''pw''\<rparr>)
              (user_password example_user)"
    by (simp add: example_user_def)
  note L = login_outcomes [OF example_session_connected,
      where verify_password = "\<lambda>p d. d = ''digest-of-'' @ p" and cfg = example_config
        and now = 1000000000]
  from L [where request = "\<lparr>login_email = ''bob@example.org'', login_password = ''pw''\<rparr>"] f1
  have 1: "login (\<lambda>p d. d = ''digest-of-'' @ p) example_config 1000000000
       \<lparr>login_email = ''bob@example.org'', login_password = ''pw''\<rparr> example_session
       = Inl (HTTPException 404 ''User not found'' [])"
    by blast
  from L [where request = "\<lparr>login_email = ''ada@example.org'', login_password = ''guess''\<rparr>"
      and user = example_user] f2 p2
  have 2: "login (\<lambda>p d. d = ''digest-of-'' @ p) example_config 1000000000
       \<lparr>login_email = ''ada@example.org'', login_password = ''guess''\<rparr> example_session
       = Inl (HTTPException 401 ''Incorrect password'' [])"
    by blast
  from L [where request = "\<lparr>login_email = ''ada@example.org'', login_password = ''pw''\<rparr>"
      and user = example_user and tok = example_token] f3 p3 create_token_example_user
  have 3: "login (\<lambda>p d. d = ''digest-of-'' @ p) example_config 1000000000
       \<lparr>login_email = ''ada@example.org'', login_password = ''pw''\<rparr> example_session
       = Inr \<lparr>login_status = ''success'', login_message = ''User logged in successfully'',
              access_token = example_token, token_type = ''bearer'',
              login_user_details =
                \<lparr>details_id = user_id example_user, details_name = user_name example_user,
                 details_email = user_email example_user\<rparr>\<rparr>"
    by blast
  from 1 2 3 example_session_connected show ?thesis
    by (simp add: example_user_def)
qed

section \<open>Properties of the scoped session\<close>

lemma sign_up_insert_closes: "closes (snd (sign_up_insert hp request db)) = closes db"
  by (simp add: sign_up_insert_def Let_def db_commit_def db_add_def db_rollback_def db_refresh_def
      split: sum.splits option.splits)

text \<open>
  No handler closes the session itself: \<^verbatim>\<open>login\<close> and \<^verbatim>\<open>get_current_user\<close> only query
  it, and \<^verbatim>\<open>sign_up\<close> adds, commits, refreshes and rolls back.
\<close>

lemma sign_up_closes: "closes (snd (sign_up hp request db)) = closes db"
  by (simp add: sign_up_def sign_up_insert_closes split: sum.splits option.splits)

text \<open>A generator that has finished stays finished and touches the session no more.\<close>

lemma get_db_done: "fst (get_db rows up (Done, d) r) = (Done, d)"
  by (cases r) simp_all

text \<open>However a suspended generator is resumed, it closes the session and finishes.\<close>

lemma get_db_resumed: "fst (get_db rows up (AtYield, Some db) r) = (Done, Some (db_close db))"
  by (cases r) simp_all

lemma scoped_get_db:
  "scoped (get_db rows up) body =
     (fst (body (SessionLocal rows up)), (Done, Some (db_close (snd (body (SessionLocal rows up))))))"
  by (cases "body (SessionLocal rows up)"; cases "fst (body (SessionLocal rows up))")
     (simp_all add: scoped_def)

text \<open>
  Claim C9. The session that \<^verbatim>\<open>get_db\<close> or \<^verbatim>\<open>get_db_session\<close> creates and yields is the
  one the body runs on, and it is that session, as the body left it, that ends up closed:
  for a body that does not close the session itself, the generator is finished and
  holds the body's session with nothing pending and a close count of exactly one. This
  is so whether the body returned (at its end or early) or raised, and the outcome of the
  body is passed on as it is.
\<close>

theorem session_released_once:
  assumes "body \<lparr>table = rows, pending = [], connected = up, closes = 0\<rparr> = (r, db)"
    and "closes db = 0"
  shows "scoped (get_db rows up) body = (r, (Done, Some (db\<lparr>pending := [], closes := 1\<rparr>)))
         \<and> scoped (get_db_session rows up) body
             = (r, (Done, Some (db\<lparr>pending := [], closes := 1\<rparr>)))"
  using assms by (simp add: scoped_get_db get_db_session_def db_close_def SessionLocal_def)

lemma sign_up_duplicate_example:
  "sign_up (\<lambda>p. ''digest-of-'' @ p) example_signup
       \<lparr>table = [example_user], pending = [], connected = True, closes = 0\<rparr>
     = (Inl (HTTPException 400 ''User with this email already registered.'' []),
        \<lparr>table = [example_user], pending = [], connected = True, closes = 0\<rparr>)"
  by (simp add: sign_up_def query_first_by_email_def example_user_def example_signup_def)

theorem session_released_once_witness:
  "sign_up (\<lambda>p. ''digest-of-'' @ p) example_signup
       \<lparr>table = [example_user], pending = [], connected = True, closes = 0\<rparr>
     = (Inl (HTTPException 400 ''User with this email already registered.'' []),
        \<lparr>table = [example_user], pending = [], connected = True, closes = 0\<rparr>)
   \<and> closes \<lparr>table = [example_user], pending = [], connected = True, closes = 0\<rparr> = 0
   \<and> scoped (get_db [example_user] True) (sign_up (\<lambda>p. ''digest-of-'' @ p) example_signup)
     = (Inl (HTTPException 400 ''User with this email already registered.'' []),
        (Done, Some \<lparr>table = [example_user], pending = [], connected = True, closes = 1\<rparr>))"
proof -
  have 2: "closes \<lparr>table = [example_user], pending = [], connected = True, closes = 0\<rparr> = 0"
    by simp
  note S = session_released_once
      [where body = "sign_up (\<lambda>p. ''digest-of-'' @ p) example_signup"
         and rows = "[example_user]" and up = True
         and r = "Inl (HTTPException 400 ''User with this email already registered.'' [])"
         and db = "\<lparr>table = [example_user], pending = [], connected = True, closes = 0\<rparr>"]
  from S sign_up_duplicate_example 2 show ?thesis by simp
qed

section \<open>Start-up without a secret key\<close>

text \<open>The guard that \<^verbatim>\<open>core/config.py\<close> has for \<^verbatim>\<open>DATABASE_URL\<close> stops the import.\<close>

lemma startup_without_database_url:
  "startup [(''SECRET_KEY'', ''s3cret''), (''ALGORITHM'', ''HS256'')] = Inl ValueError"
  by (simp add: startup_def load_database_url_def getenv_def)

text \<open>
  Claim C2. The claim is that start-up fails when \<^verbatim>\<open>SECRET_KEY\<close> is not in the
  environment. The code has no such guard: with \<^verbatim>\<open>DATABASE_URL\<close> and \<^verbatim>\<open>ALGORITHM\<close> set
  and \<^verbatim>\<open>SECRET_KEY\<close> absent, start-up succeeds with the key \<^verbatim>\<open>None\<close>, and the missing
  key is met at call time: \<^verbatim>\<open>create_token\<close> raises, and so does a \<^verbatim>\<open>login\<close> with the
  right password.
\<close>

theorem startup_without_secret_key:
  "startup [(''DATABASE_URL'', ''sqlite:///./app.db''), (''ALGORITHM'', ''HS256'')]
     = Inr \<lparr>DATABASE_URL = ''sqlite:///./app.db'', SECRET_KEY = None, ALGORITHM = Some ''HS256''\<rparr>
   \<and> fst (create_token
            \<lparr>DATABASE_URL = ''sqlite:///./app.db'', SECRET_KEY = None, ALGORITHM = Some ''HS256''\<rparr>
            1000000000 [[(''sub'', PStr ''42'')]] 0) = Inl JWSError
   \<and> login (\<lambda>p d. d = ''digest-of-'' @ p)
        \<lparr>DATABASE_URL = ''sqlite:///./app.db'', SECRET_KEY = None, ALGORITHM = Some ''HS256''\<rparr>
        1000000000 \<lparr>login_email = ''ada@example.org'', login_password = ''pw''\<rparr> example_session
       = Inl JWSError"
proof -
  have 1: "startup [(''DATABASE_URL'', ''sqlite:///./app.db''), (''ALGORITHM'', ''HS256'')]
     = Inr \<lparr>DATABASE_URL = ''sqlite:///./app.db'', SECRET_KEY = None, ALGORITHM = Some ''HS256''\<rparr>"
    by (simp add: startup_def load_database_url_def getenv_def)
  have 2: "fst (create_token
            \<lparr>DATABASE_URL = ''sqlite:///./app.db'', SECRET_KEY = None, ALGORITHM = Some ''HS256''\<rparr>
            1000000000 [[(''sub'', PStr ''42'')]] 0) = Inl JWSError"
    by (simp add: create_token_unfold jwt_encode_def Let_def normalise_time_claims_def
        normalise_time_claim.simps hmac_algorithms_def)
  have 3: "login (\<lambda>p d. d = ''digest-of-'' @ p)
        \<lparr>DATABASE_URL = ''sqlite:///./app.db'', SECRET_KEY = None, ALGORITHM = Some ''HS256''\<rparr>
        1000000000 \<lparr>login_email = ''ada@example.org'', login_password = ''pw''\<rparr> example_session
       = Inl JWSError"
    using 2
    by (simp add: login_def query_first_by_email_def example_session_def SessionLocal_def
        example_user_def str_id_def str_int_42)
  from 1 2 3 show ?thesis by simp
qed

end
